theory Spec2Isabelle
  imports Complex_Main "HOL-Library.Multiset"
begin

section \<open>Errors raised by the Python code and by the libraries it calls\<close>

datatype error =
    IndexError
  | AttributeError
  | ValueError
  | QiskitError
  | CircuitError
  | ExecutionError

section \<open>The symplectic Pauli representation of \<open>qiskit.quantum_info\<close>\<close>

text \<open>
  \<open>Quantum_chemistry.py\<close> builds every operator with \<open>PauliList.from_symplectic\<close> and
  \<open>SparsePauliOp\<close>. A Pauli string on \<open>n\<close> qubits is a pair of bit rows \<open>(z, x)\<close>; qubit
  \<open>k\<close> carries \<open>I\<close>, \<open>Z\<close>, \<open>X\<close> or \<open>Y\<close> when \<open>(z ! k, x ! k)\<close> is \<open>(F,F)\<close>, \<open>(T,F)\<close>,
  \<open>(F,T)\<close> or \<open>(T,T)\<close>. Inside a \<open>PauliList\<close> the row stands for
  \<open>(-\<i>)^phase * Z^z * X^x\<close>; a \<open>SparsePauliOp\<close> moves every phase into its complex
  coefficients, so that each of its rows is the plain tensor product of \<open>I, X, Y, Z\<close>.
  Coefficients are modelled as exact complex numbers.
\<close>

type_synonym pauli = "bool list \<times> bool list"

type_synonym pauli_term = "pauli \<times> complex"

record sparse_pauli_op =
  num_qubits :: nat
  op_terms :: "pauli_term list"

definition paulis :: "sparse_pauli_op \<Rightarrow> pauli list" where
  "paulis A = map fst (op_terms A)"

definition coeffs :: "sparse_pauli_op \<Rightarrow> complex list" where
  "coeffs A = map snd (op_terms A)"

text \<open>\<open>np.sum\<close> of a boolean row: the number of set bits.\<close>

definition np_sum :: "bool list \<Rightarrow> nat" where
  "np_sum bs = length (filter (\<lambda>b. b) bs)"

definition logical_and :: "bool list \<Rightarrow> bool list \<Rightarrow> bool list" where
  "logical_and a b = map2 (\<lambda>u v. u \<and> v) a b"

definition logical_xor :: "bool list \<Rightarrow> bool list \<Rightarrow> bool list" where
  "logical_xor a b = map2 (\<lambda>u v. u \<noteq> v) a b"

text \<open>\<open>_count_y\<close>: the number of qubits on which both flags are set.\<close>

definition count_y :: "pauli \<Rightarrow> nat" where
  "count_y p = np_sum (logical_and (snd p) (fst p))"

text \<open>\<open>(-1j) ** k\<close> for an integer \<open>k\<close> of either sign.\<close>

definition neg_i_pow :: "int \<Rightarrow> complex" where
  "neg_i_pow k = (- \<i>) powi k"

text \<open>
  \<open>PauliList.from_symplectic(z, x)\<close> with the default group phase \<open>0\<close>: each row keeps its
  bits, and its internal phase is its number of \<open>Y\<close>s modulo 4. The width \<open>n\<close> is the
  second axis of the arrays.
\<close>

record pauli_list =
  pl_num_qubits :: nat
  pl_rows :: "(pauli \<times> nat) list"

definition from_symplectic :: "nat \<Rightarrow> bool list list \<Rightarrow> bool list list \<Rightarrow> pauli_list" where
  "from_symplectic n zs xs =
     \<lparr>pl_num_qubits = n,
      pl_rows = map2 (\<lambda>z x. ((z, x), count_y (z, x) mod 4)) zs xs\<rparr>"

text \<open>
  The constructor \<open>SparsePauliOp(paulis, coeffs)\<close>: the coefficient vector must have one
  entry per row; the phase of each row, beyond the one its \<open>Y\<close>s account for, is
  multiplied into the coefficient.
\<close>

definition SparsePauliOp :: "pauli_list \<Rightarrow> complex list \<Rightarrow> error + sparse_pauli_op" where
  "SparsePauliOp pl cs =
     (if length cs \<noteq> length (pl_rows pl) then Inl ValueError
      else Inr \<lparr>num_qubits = pl_num_qubits pl,
                op_terms = map2 (\<lambda>(p, ph) c. (p, neg_i_pow (int ph - int (count_y p)) * c))
                             (pl_rows pl) cs\<rparr>)"

text \<open>\<open>adjoint\<close>: Pauli strings are self-adjoint, only the coefficients are conjugated.\<close>

definition adjoint :: "sparse_pauli_op \<Rightarrow> sparse_pauli_op" where
  "adjoint A = A\<lparr>op_terms := map (\<lambda>t. (fst t, cnj (snd t))) (op_terms A)\<rparr>"

text \<open>
  \<open>A.compose(B)\<close> (with \<open>front=False\<close>): the rows are combined pairwise, \<open>A\<close>'s rows in
  the outer position; the bits are xor-ed, the phase of the product
  \<open>Z^z2 X^x2 Z^z1 X^x1\<close> gains \<open>2 * sum (z1 & x2)\<close>, the coefficients are multiplied, and the
  constructor moves the phase into the coefficient. Operands of different width are
  rejected.
\<close>

definition compose_term :: "pauli_term \<Rightarrow> pauli_term \<Rightarrow> pauli_term" where
  "compose_term s t =
     (let p1 = fst s; p2 = fst t;
          z3 = logical_xor (fst p1) (fst p2);
          x3 = logical_xor (snd p1) (snd p2);
          phase = (count_y p1 mod 4 + count_y p2 mod 4
                     + 2 * np_sum (logical_and (fst p1) (snd p2))) mod 4
      in ((z3, x3), neg_i_pow (int phase - int (count_y (z3, x3))) * (snd s * snd t)))"

definition compose_rows :: "pauli_term list \<Rightarrow> pauli_term list \<Rightarrow> pauli_term list" where
  "compose_rows as bs = concat (map (\<lambda>s. map (compose_term s) bs) as)"

definition compose :: "sparse_pauli_op \<Rightarrow> sparse_pauli_op \<Rightarrow> error + sparse_pauli_op" where
  "compose A B =
     (if num_qubits A \<noteq> num_qubits B then Inl QiskitError
      else Inr \<lparr>num_qubits = num_qubits B,
                op_terms = compose_rows (op_terms A) (op_terms B)\<rparr>)"

text \<open>
  \<open>A.dot(B)\<close> is \<open>A.compose(B, front=True)\<close>: the same pairing, but for the product
  \<open>Z^z1 X^x1 Z^z2 X^x2\<close>, whose phase gains \<open>2 * sum (x1 & z2)\<close>. It is the operator
  product with \<open>A\<close> as the left factor.
\<close>

definition dot_term :: "pauli_term \<Rightarrow> pauli_term \<Rightarrow> pauli_term" where
  "dot_term s t =
     (let p1 = fst s; p2 = fst t;
          z3 = logical_xor (fst p1) (fst p2);
          x3 = logical_xor (snd p1) (snd p2);
          phase = (count_y p1 mod 4 + count_y p2 mod 4
                     + 2 * np_sum (logical_and (snd p1) (fst p2))) mod 4
      in ((z3, x3), neg_i_pow (int phase - int (count_y (z3, x3))) * (snd s * snd t)))"

definition dot_rows :: "pauli_term list \<Rightarrow> pauli_term list \<Rightarrow> pauli_term list" where
  "dot_rows as bs = concat (map (\<lambda>s. map (dot_term s) bs) as)"

definition dot :: "sparse_pauli_op \<Rightarrow> sparse_pauli_op \<Rightarrow> error + sparse_pauli_op" where
  "dot A B =
     (if num_qubits A \<noteq> num_qubits B then Inl QiskitError
      else Inr \<lparr>num_qubits = num_qubits B,
                op_terms = dot_rows (op_terms A) (op_terms B)\<rparr>)"

text \<open>\<open>A + B\<close> concatenates the rows; \<open>c * A\<close> scales every coefficient.\<close>

definition add_op :: "sparse_pauli_op \<Rightarrow> sparse_pauli_op \<Rightarrow> error + sparse_pauli_op" where
  "add_op A B =
     (if num_qubits A \<noteq> num_qubits B then Inl QiskitError
      else Inr \<lparr>num_qubits = num_qubits A, op_terms = op_terms A @ op_terms B\<rparr>)"

definition scale_rows :: "complex \<Rightarrow> pauli_term list \<Rightarrow> pauli_term list" where
  "scale_rows c ts = map (\<lambda>t. (fst t, c * snd t)) ts"

definition scalar_mul :: "complex \<Rightarrow> sparse_pauli_op \<Rightarrow> sparse_pauli_op" where
  "scalar_mul c A = A\<lparr>op_terms := scale_rows c (op_terms A)\<rparr>"

text \<open>
  \<open>np.isclose(c, 0, atol, rtol)\<close> with the default \<open>atol = 1e-8\<close> of \<open>SparsePauliOp\<close>:
  \<open>|c| \<le> atol + rtol * 0\<close>. The comparison is written on squares so that it evaluates.
\<close>

definition is_close_zero :: "complex \<Rightarrow> bool" where
  "is_close_zero c \<longleftrightarrow> (Re c)\<^sup>2 + (Im c)\<^sup>2 \<le> (1 / 10 ^ 8)\<^sup>2"

text \<open>The distinct elements of a list, in the order of their first occurrence.\<close>

definition unordered_unique :: "'a list \<Rightarrow> 'a list" where
  "unordered_unique xs = rev (remdups (rev xs))"

definition identity_pauli :: "nat \<Rightarrow> pauli" where
  "identity_pauli n = (replicate n False, replicate n False)"

text \<open>
  \<open>simplify\<close>: rows whose coefficient is close to zero are dropped; when nothing was
  dropped and no row repeats, the operator is returned as it is; otherwise the
  coefficients of equal rows are added up, in the order of first occurrence, totals close
  to zero are dropped, and an operator with nothing left becomes the identity row with
  coefficient \<open>0\<close>.
\<close>

definition simplify :: "sparse_pauli_op \<Rightarrow> sparse_pauli_op" where
  "simplify A =
     (let nz = filter (\<lambda>t. \<not> is_close_zero (snd t)) (op_terms A);
          uniq = unordered_unique (map fst nz)
      in if length nz = length (op_terms A) \<and> length uniq = length (op_terms A) then A
         else
           (let totals = map (\<lambda>p. (p, sum_list (map snd (filter (\<lambda>t. fst t = p) nz)))) uniq
            in if list_all (\<lambda>t. is_close_zero (snd t)) totals
               then A\<lparr>op_terms := [(identity_pauli (num_qubits A), 0)]\<rparr>
               else A\<lparr>op_terms := filter (\<lambda>t. \<not> is_close_zero (snd t)) totals\<rparr>))"

section \<open>The Jordan-Wigner annihilation operators\<close>

text \<open>
  \<open>np.tri(n, n, k)\<close> has a one at \<open>(i, j)\<close> when \<open>j \<le> i + k\<close>; \<open>np.eye(n, n, 0)\<close> has a one
  on the diagonal. The rows are read as booleans by \<open>from_symplectic\<close>.
\<close>

definition np_tri :: "nat \<Rightarrow> int \<Rightarrow> bool list list" where
  "np_tri n k = map (\<lambda>i. map (\<lambda>j. int j \<le> int i + k) [0..<n]) [0..<n]"

definition np_eye :: "nat \<Rightarrow> bool list list" where
  "np_eye n = map (\<lambda>i. map (\<lambda>j. j = i) [0..<n]) [0..<n]"

fun collect :: "(error + 'a) list \<Rightarrow> error + 'a list" where
  "collect [] = Inr []"
| "collect (r # rs) =
     (case r of Inl e \<Rightarrow> Inl e
      | Inr v \<Rightarrow> (case collect rs of Inl e \<Rightarrow> Inl e | Inr vs \<Rightarrow> Inr (v # vs)))"

definition annihilation_operators_with_jordan_wigner ::
  "nat \<Rightarrow> error + sparse_pauli_op list" where
  "annihilation_operators_with_jordan_wigner num_states =
     (let z1_bits = np_tri num_states (- 1);
          z2_bits = np_tri num_states 0;
          x_bits = np_eye num_states
      in collect (map (\<lambda>(z1, z2, x).
                         SparsePauliOp (from_symplectic num_states [z1, z2] [x, x])
                                       [1 / 2, \<i> / 2])
                      (zip z1_bits (zip z2_bits x_bits))))"


section \<open>Building the qubit Hamiltonian\<close>

text \<open>Sequencing of computations that may raise: the first error is the result.\<close>

definition bind_e :: "error + 'a \<Rightarrow> ('a \<Rightarrow> error + 'b) \<Rightarrow> error + 'b" where
  "bind_e m f = (case m of Inl e \<Rightarrow> Inl e | Inr v \<Rightarrow> f v)"

primrec foldM :: "('s \<Rightarrow> 'a \<Rightarrow> error + 's) \<Rightarrow> 'a list \<Rightarrow> 's \<Rightarrow> error + 's" where
  "foldM f [] s = Inr s"
| "foldM f (x # xs) s = bind_e (f s x) (foldM f xs)"

text \<open>Indexing a list or an array axis with a non-negative index.\<close>

definition getitem :: "'a list \<Rightarrow> nat \<Rightarrow> error + 'a" where
  "getitem xs i = (if i < length xs then Inr (xs ! i) else Inl IndexError)"

text \<open>
  The two accumulators start as the integer \<open>0\<close> (here \<open>None\<close>); \<open>0 + A\<close> is \<open>A\<close>, and
  adding to an operator is \<open>add_op\<close>.
\<close>

definition iadd :: "sparse_pauli_op option \<Rightarrow> sparse_pauli_op \<Rightarrow> error + sparse_pauli_op option" where
  "iadd acc A =
     (case acc of None \<Rightarrow> Inr (Some A)
      | Some S \<Rightarrow> bind_e (add_op S A) (\<lambda>R. Inr (Some R)))"

type_synonym tensor2 = "complex list list"

type_synonym tensor4 = "complex list list list list"

definition two_body_step ::
  "tensor4 \<Rightarrow> sparse_pauli_op list \<Rightarrow> nat \<Rightarrow> nat \<Rightarrow> sparse_pauli_op \<Rightarrow> nat
     \<Rightarrow> sparse_pauli_op option \<Rightarrow> nat \<Rightarrow> error + sparse_pauli_op option" where
  "two_body_step two_body annihilation_operators i j a_ij k two_body_sum l =
     bind_e (getitem annihilation_operators k) (\<lambda>ak.
     bind_e (getitem annihilation_operators l) (\<lambda>al.
     bind_e (compose ak al) (\<lambda>a_kl.
     bind_e (getitem two_body i) (\<lambda>t1.
     bind_e (getitem t1 j) (\<lambda>t2.
     bind_e (getitem t2 k) (\<lambda>t3.
     bind_e (getitem t3 l) (\<lambda>h.
     bind_e (compose a_ij a_kl) (\<lambda>composed.
     iadd two_body_sum (scalar_mul h composed)))))))))"

definition one_body_step ::
  "tensor2 \<Rightarrow> tensor4 \<Rightarrow> sparse_pauli_op list \<Rightarrow> sparse_pauli_op list \<Rightarrow> nat
     \<Rightarrow> sparse_pauli_op option \<times> sparse_pauli_op option \<Rightarrow> nat
     \<Rightarrow> error + (sparse_pauli_op option \<times> sparse_pauli_op option)" where
  "one_body_step one_body two_body annihilation_operators creation_operators i running j =
     (let n = length annihilation_operators in
      bind_e (getitem one_body i) (\<lambda>row.
      bind_e (getitem row j) (\<lambda>h.
      bind_e (getitem creation_operators i) (\<lambda>ci.
      bind_e (getitem annihilation_operators j) (\<lambda>aj.
      bind_e (compose ci aj) (\<lambda>composed.
      bind_e (iadd (fst running) (scalar_mul h composed)) (\<lambda>one_body_sum.
      bind_e (getitem creation_operators j) (\<lambda>cj.
      bind_e (compose ci cj) (\<lambda>a_ij.
      bind_e (foldM (\<lambda>acc k.
                foldM (two_body_step two_body annihilation_operators i j a_ij k) [0..<n] acc)
              [0..<n] (snd running)) (\<lambda>two_body_sum.
      Inr (one_body_sum, two_body_sum)))))))))))"

text \<open>
  The last two lines of \<open>build_qubit_hamiltonian\<close>. With empty operator lists both accumulators
  are still the integer \<open>0\<close>, \<open>0 + 0.5 * 0\<close> is a float, and \<open>.simplify()\<close> raises.
\<close>

definition finish_hamiltonian ::
  "sparse_pauli_op option \<times> sparse_pauli_op option \<Rightarrow> error + sparse_pauli_op" where
  "finish_hamiltonian running =
     (case running of
        (None, None) \<Rightarrow> Inl AttributeError
      | (Some a, None) \<Rightarrow> Inr (simplify a)
      | (None, Some b) \<Rightarrow> Inr (simplify (scalar_mul (1 / 2) b))
      | (Some a, Some b) \<Rightarrow> bind_e (add_op a (scalar_mul (1 / 2) b)) (\<lambda>q. Inr (simplify q)))"

definition build_qubit_hamiltonian ::
  "tensor2 \<Rightarrow> tensor4 \<Rightarrow> sparse_pauli_op list \<Rightarrow> sparse_pauli_op list
     \<Rightarrow> error + sparse_pauli_op" where
  "build_qubit_hamiltonian one_body two_body annihilation_operators creation_operators =
     (let n = length annihilation_operators in
      bind_e (foldM (\<lambda>running i.
                foldM (one_body_step one_body two_body annihilation_operators
                         creation_operators i) [0..<n] running)
              [0..<n] (None, None))
        finish_hamiltonian)"

section \<open>Dense matrices\<close>

text \<open>
  \<open>to_matrix\<close> adds up the coefficient times the Kronecker product of the one-qubit Pauli
  matrices of each row; qubit \<open>0\<close> is the rightmost factor.
\<close>

type_synonym matrix = "complex list list"

definition kron :: "matrix \<Rightarrow> matrix \<Rightarrow> matrix" where
  "kron A B =
     concat (map (\<lambda>ra. map (\<lambda>rb. concat (map (\<lambda>a. map (\<lambda>b. a * b) rb) ra)) B) A)"

definition sigma :: "bool \<Rightarrow> bool \<Rightarrow> matrix" where
  "sigma z x =
     (if z then (if x then [[0, - \<i>], [\<i>, 0]] else [[1, 0], [0, - 1]])
      else (if x then [[0, 1], [1, 0]] else [[1, 0], [0, 1]]))"

fun pauli_matrix :: "bool list \<Rightarrow> bool list \<Rightarrow> matrix" where
  "pauli_matrix (z # zs) (x # xs) = kron (pauli_matrix zs xs) (sigma z x)"
| "pauli_matrix zs xs = [[1]]"

definition mat_add :: "matrix \<Rightarrow> matrix \<Rightarrow> matrix" where
  "mat_add A B = map2 (\<lambda>ra rb. map2 (\<lambda>a b. a + b) ra rb) A B"

definition mat_scale :: "complex \<Rightarrow> matrix \<Rightarrow> matrix" where
  "mat_scale c A = map (\<lambda>ra. map (\<lambda>a. c * a) ra) A"

definition mat_mul :: "matrix \<Rightarrow> matrix \<Rightarrow> matrix" where
  "mat_mul A B =
     map (\<lambda>ra. map (\<lambda>j. sum_list (map2 (\<lambda>a rb. a * rb ! j) ra B)) [0..<length B]) A"

definition to_matrix :: "sparse_pauli_op \<Rightarrow> matrix" where
  "to_matrix A =
     foldl (\<lambda>M t. mat_add M (mat_scale (snd t) (pauli_matrix (fst (fst t)) (snd (fst t)))))
       (replicate (2 ^ num_qubits A) (replicate (2 ^ num_qubits A) 0)) (op_terms A)"

section \<open>The exact solver\<close>

text \<open>
  \<open>np.linalg.eigh\<close> is a parameter: it maps a matrix to its list of eigenvalues (the
  eigenvectors are not used). Python's \<open>min\<close> raises on an empty sequence and otherwise
  keeps the first smallest element.
\<close>

definition py_min :: "real list \<Rightarrow> error + real" where
  "py_min xs =
     (case xs of [] \<Rightarrow> Inl ValueError
      | x # rest \<Rightarrow> Inr (foldl (\<lambda>m y. if y < m then y else m) x rest))"

definition exact_minimal_eigenvalue ::
  "(matrix \<Rightarrow> real list) \<Rightarrow> sparse_pauli_op \<Rightarrow> error + real" where
  "exact_minimal_eigenvalue eigh observable = py_min (eigh (to_matrix observable))"

section \<open>The ansatz circuit\<close>

datatype angle = Parameter string | Bound real

datatype gate = RY angle nat | XGate nat | CX nat nat

record quantum_circuit =
  qc_num_qubits :: nat
  qc_gates :: "gate list"

definition QuantumCircuit :: "nat \<Rightarrow> quantum_circuit" where
  "QuantumCircuit n = \<lparr>qc_num_qubits = n, qc_gates = []\<rparr>"

text \<open>Appending a gate raises when a qubit index is out of range or repeated.\<close>

fun gate_qubits :: "gate \<Rightarrow> nat list" where
  "gate_qubits (RY a q) = [q]"
| "gate_qubits (XGate q) = [q]"
| "gate_qubits (CX c t) = [c, t]"

definition append_gate :: "gate \<Rightarrow> quantum_circuit \<Rightarrow> error + quantum_circuit" where
  "append_gate g qc =
     (if list_all (\<lambda>q. q < qc_num_qubits qc) (gate_qubits g) \<and> distinct (gate_qubits g)
      then Inr (qc\<lparr>qc_gates := qc_gates qc @ [g]\<rparr>)
      else Inl CircuitError)"

definition create_initial_quantum_circuit :: "nat \<Rightarrow> error + quantum_circuit" where
  "create_initial_quantum_circuit num_qubits' =
     bind_e (append_gate (RY (Parameter ''theta'') 1) (QuantumCircuit num_qubits')) (\<lambda>qc.
     bind_e (append_gate (XGate 1) qc) (\<lambda>qc.
     bind_e (append_gate (CX 1 0) qc) (\<lambda>qc.
     bind_e (append_gate (XGate 1) qc) (\<lambda>qc.
     bind_e (append_gate (CX 0 2) qc) (\<lambda>qc.
     append_gate (CX 1 3) qc)))))"

fun gate_parameters :: "gate \<Rightarrow> string list" where
  "gate_parameters (RY (Parameter name) q) = [name]"
| "gate_parameters g = []"

definition parameters :: "quantum_circuit \<Rightarrow> string list" where
  "parameters qc = unordered_unique (concat (map gate_parameters (qc_gates qc)))"

text \<open>
  \<open>bind_parameters(values)\<close> with a sequence: one value per parameter of the circuit, in
  the order of \<open>parameters\<close>; a different number of values raises.
\<close>

fun bind_gate :: "(string \<times> real) list \<Rightarrow> gate \<Rightarrow> gate" where
  "bind_gate env (RY (Parameter name) q) =
     (case map_of env name of Some v \<Rightarrow> RY (Bound v) q | None \<Rightarrow> RY (Parameter name) q)"
| "bind_gate env g = g"

definition bind_parameters :: "quantum_circuit \<Rightarrow> real list \<Rightarrow> error + quantum_circuit" where
  "bind_parameters qc values =
     (if length values \<noteq> length (parameters qc) then Inl ValueError
      else Inr (qc\<lparr>qc_gates := map (bind_gate (zip (parameters qc) values)) (qc_gates qc)\<rparr>))"

section \<open>The variational optimizer\<close>

text \<open>
  \<open>Pauli_operations.estimate_expectation_values\<close> is a parameter: from the Pauli rows, the
  bound circuit, the backend and the execution options it gives one real estimate per
  row, or fails. \<open>np.dot\<close> of two vectors raises when their lengths differ.
\<close>

definition np_dot :: "complex list \<Rightarrow> real list \<Rightarrow> error + complex" where
  "np_dot cs vs =
     (if length cs \<noteq> length vs then Inl ValueError
      else Inr (sum_list (map2 (\<lambda>c v. c * complex_of_real v) cs vs)))"

definition cost_function ::
  "(pauli list \<Rightarrow> quantum_circuit \<Rightarrow> 'b \<Rightarrow> 'o \<Rightarrow> error + real list)
     \<Rightarrow> sparse_pauli_op \<Rightarrow> quantum_circuit \<Rightarrow> 'b \<Rightarrow> 'o \<Rightarrow> real list \<Rightarrow> error + complex" where
  "cost_function estimate_expectation_values observable ansatz backend execute_opts params =
     bind_e (bind_parameters ansatz params) (\<lambda>bound.
     bind_e (estimate_expectation_values (paulis observable) bound backend execute_opts)
       (\<lambda>estimated_values. np_dot (coeffs observable) estimated_values))"

text \<open>
  The minimizer is a parameter: it receives the cost function, the starting parameters
  and the keyword \<open>method\<close>.
\<close>

definition minimize_expectation_value ::
  "(pauli list \<Rightarrow> quantum_circuit \<Rightarrow> 'b \<Rightarrow> 'o \<Rightarrow> error + real list)
     \<Rightarrow> sparse_pauli_op \<Rightarrow> quantum_circuit \<Rightarrow> real list \<Rightarrow> 'b
     \<Rightarrow> ((real list \<Rightarrow> error + complex) \<Rightarrow> real list \<Rightarrow> string \<Rightarrow> error + 'r)
     \<Rightarrow> 'o \<Rightarrow> error + 'r" where
  "minimize_expectation_value estimate_expectation_values observable ansatz starting_params
       backend minimizer execute_opts =
     minimizer (cost_function estimate_expectation_values observable ansatz backend execute_opts)
       starting_params ''COBYLA''"

section \<open>The loop over the data files\<close>

text \<open>
  \<open>Utils.extract_data\<close> is a parameter: it reads the distance, the two integral tensors
  and the repulsion energy from a file, or fails. A cell of an \<open>np.empty\<close> array is \<open>None\<close>
  until it is written.
\<close>

type_synonym 'r energy_arrays =
  "real option list \<times> 'r option list \<times> real option list \<times> real option list"

definition process_step ::
  "('f \<Rightarrow> error + (real \<times> tensor2 \<times> tensor4 \<times> real))
     \<Rightarrow> (pauli list \<Rightarrow> quantum_circuit \<Rightarrow> 'b \<Rightarrow> 'o \<Rightarrow> error + real list)
     \<Rightarrow> ((real list \<Rightarrow> error + complex) \<Rightarrow> real list \<Rightarrow> string \<Rightarrow> error + 'r)
     \<Rightarrow> (matrix \<Rightarrow> real list)
     \<Rightarrow> sparse_pauli_op list \<Rightarrow> sparse_pauli_op list \<Rightarrow> quantum_circuit \<Rightarrow> 'b \<Rightarrow> 'o
     \<Rightarrow> 'r energy_arrays \<Rightarrow> nat \<times> 'f \<Rightarrow> error + 'r energy_arrays" where
  "process_step extract_data estimate_expectation_values minimize eigh
       annihilators creators state_circuit backend execute_opts arrays entry =
     (case arrays of (distances, optimized_results, minimal_exact_eigenvalues, repulsions) \<Rightarrow>
      case entry of (index, file) \<Rightarrow>
      bind_e (extract_data file) (\<lambda>(distance, one_body, two_body, repulsion_energy).
      bind_e (build_qubit_hamiltonian one_body two_body annihilators creators) (\<lambda>hamiltonian.
      bind_e (minimize_expectation_value estimate_expectation_values hamiltonian state_circuit
                [0] backend minimize execute_opts) (\<lambda>minimized_result.
      let distances = distances[index := Some distance];
          repulsions = repulsions[index := Some repulsion_energy];
          optimized_results = optimized_results[index := Some minimized_result]
      in bind_e (exact_minimal_eigenvalue eigh hamiltonian) (\<lambda>eigenvalue.
         Inr (distances, optimized_results,
              minimal_exact_eigenvalues[index := Some eigenvalue], repulsions))))))"

definition calculate_hamiltonian_energy ::
  "('f \<Rightarrow> error + (real \<times> tensor2 \<times> tensor4 \<times> real))
     \<Rightarrow> (pauli list \<Rightarrow> quantum_circuit \<Rightarrow> 'b \<Rightarrow> 'o \<Rightarrow> error + real list)
     \<Rightarrow> ((real list \<Rightarrow> error + complex) \<Rightarrow> real list \<Rightarrow> string \<Rightarrow> error + 'r)
     \<Rightarrow> (matrix \<Rightarrow> real list)
     \<Rightarrow> 'f list \<Rightarrow> sparse_pauli_op list \<Rightarrow> quantum_circuit \<Rightarrow> 'b \<Rightarrow> 'o
     \<Rightarrow> error + 'r energy_arrays" where
  "calculate_hamiltonian_energy extract_data estimate_expectation_values minimize eigh
       data_file_Paths annihilators state_circuit backend execute_opts =
     (let n = length data_file_Paths;
          distances = replicate n None;
          repulsions = replicate n None;
          optimized_results = replicate n None;
          minimal_exact_eigenvalues = replicate n None;
          creators = map adjoint annihilators
      in foldM (process_step extract_data estimate_expectation_values minimize eigh
                  annihilators creators state_circuit backend execute_opts)
           (zip [0..<n] data_file_Paths)
           (distances, optimized_results, minimal_exact_eigenvalues, repulsions))"


section \<open>Closed forms used in the statements\<close>

text \<open>
  Row \<open>i\<close> of \<open>np.tri\<close> with the diagonal excluded (\<open>y = False\<close>) or included
  (\<open>y = True\<close>), row \<open>i\<close> of \<open>np.eye\<close>, and the operator built from them.
\<close>

definition jw_z :: "nat \<Rightarrow> nat \<Rightarrow> bool \<Rightarrow> bool list" where
  "jw_z n i y = map (\<lambda>k. k < i \<or> (k = i \<and> y)) [0..<n]"

definition jw_x :: "nat \<Rightarrow> nat \<Rightarrow> bool list" where
  "jw_x n i = map (\<lambda>k. k = i) [0..<n]"

definition jw_op :: "nat \<Rightarrow> nat \<Rightarrow> sparse_pauli_op" where
  "jw_op n i = \<lparr>num_qubits = n,
               op_terms = [((jw_z n i False, jw_x n i), 1 / 2), ((jw_z n i True, jw_x n i), \<i> / 2)]\<rparr>"


section \<open>Phases and bit rows\<close>

lemma neg_i_pow_nat: "neg_i_pow k = (- \<i>) ^ nat (k mod 4)"
proof -
  define q r where "q = k div 4" and "r = k mod 4"
  have k: "k = 4 * q + r" and r: "0 \<le> r"
    by (simp_all add: q_def r_def)
  have four: "(- \<i>) powi (4::int) = 1"
    by (simp add: power_int_def numeral_eq_Suc)
  have "(- \<i>) powi (4 * q + r) = ((- \<i>) powi 4) powi q * (- \<i>) powi r"
    by (simp add: power_int_add power_int_mult)
  also have "\<dots> = (- \<i>) powi r"
    by (simp only: four power_int_1_left mult_1)
  also have "\<dots> = (- \<i>) ^ nat r"
    using r by (simp add: power_int_def)
  finally have "(- \<i>) powi (4 * q + r) = (- \<i>) ^ nat r" .
  then have "(- \<i>) powi k = (- \<i>) ^ nat r"
    by (simp only: k[symmetric])
  then show ?thesis
    by (simp only: neg_i_pow_def r_def)
qed

lemma neg_i_pow_cong: "k mod 4 = l mod 4 \<Longrightarrow> neg_i_pow k = neg_i_pow l"
  by (simp add: neg_i_pow_nat)

lemma neg_i_pow_simps:
  "neg_i_pow 0 = 1" "neg_i_pow 1 = - \<i>" "neg_i_pow 2 = - 1" "neg_i_pow 3 = \<i>"
  "neg_i_pow (- 1) = \<i>" "neg_i_pow (- 2) = - 1" "neg_i_pow (- 3) = - \<i>"
  by (simp_all add: neg_i_pow_nat numeral_eq_Suc)

lemma neg_i_pow_own_phase: "neg_i_pow (int (c mod 4) - int c) = 1"
proof -
  have "(int (c mod 4) - int c) mod 4 = 0 mod 4"
    by presburger
  then show ?thesis using neg_i_pow_cong[of "int (c mod 4) - int c" 0]
    by (simp add: neg_i_pow_simps)
qed

lemma collect_map_Inr: "collect (map (\<lambda>x. Inr (g x)) xs) = Inr (map g xs)"
  by (induction xs) simp_all

lemma zip3_map_same:
  "zip (map f xs) (zip (map g xs) (map h xs)) = map (\<lambda>x. (f x, g x, h x)) xs"
  by (induction xs) simp_all

lemma logical_xor_upt:
  "logical_xor (map f [0..<n]) (map g [0..<n]) = map (\<lambda>k. f k \<noteq> g k) [0..<n]"
  by (simp add: logical_xor_def zip_map_map zip_same_conv_map)

lemma logical_and_upt:
  "logical_and (map f [0..<n]) (map g [0..<n]) = map (\<lambda>k. f k \<and> g k) [0..<n]"
  by (simp add: logical_and_def zip_map_map zip_same_conv_map)

lemma np_sum_upt: "np_sum (map f [0..<n]) = card {k. k < n \<and> f k}"
proof -
  have "length (filter f [0..<n]) = card (set (filter f [0..<n]))"
    by (rule distinct_card[symmetric]) simp
  also have "set (filter f [0..<n]) = {k. k < n \<and> f k}" by auto
  finally show ?thesis by (simp add: np_sum_def filter_map comp_def)
qed

lemma np_sum_at: "np_sum (map (\<lambda>k. k = i \<and> P k) [0..<n]) = (if i < n \<and> P i then 1 else 0)"
proof -
  have "{k. k < n \<and> k = i \<and> P k} = (if i < n \<and> P i then {i} else {})" by auto
  then show ?thesis by (simp add: np_sum_upt)
qed

lemma np_sum_at2:
  assumes "i \<noteq> j" "i < n" "j < n"
  shows "np_sum (map (\<lambda>k. ((k = i) \<noteq> (k = j)) \<and> P k) [0..<n])
           = (if P i then 1 else 0) + (if P j then 1 else 0)"
proof -
  have "{k. k < n \<and> ((k = i) \<noteq> (k = j)) \<and> P k}
          = (if P i then {i} else {}) \<union> (if P j then {j} else {})"
    using assms by auto
  then show ?thesis using assms by (simp add: np_sum_upt)
qed

lemma np_sum_none: "np_sum (map (\<lambda>k. False) [0..<n]) = 0"
  by (simp add: np_sum_upt)

lemma np_tri_rows:
  "np_tri n (- 1) = map (\<lambda>i. jw_z n i False) [0..<n]"
  "np_tri n 0 = map (\<lambda>i. jw_z n i True) [0..<n]"
  by (auto simp: np_tri_def jw_z_def)

lemma np_eye_rows: "np_eye n = map (jw_x n) [0..<n]"
  by (auto simp: np_eye_def jw_x_def)

lemma jw_closed_form:
  "annihilation_operators_with_jordan_wigner n = Inr (map (jw_op n) [0..<n])"
proof -
  have one: "SparsePauliOp (from_symplectic n [z1, z2] [x, x]) [1 / 2, \<i> / 2]
        = Inr \<lparr>num_qubits = n, op_terms = [((z1, x), 1 / 2), ((z2, x), \<i> / 2)]\<rparr>" for z1 z2 x
    by (simp add: SparsePauliOp_def from_symplectic_def neg_i_pow_own_phase)
  show ?thesis
    unfolding annihilation_operators_with_jordan_wigner_def Let_def np_tri_rows np_eye_rows
      zip3_map_same map_map comp_def
    by (simp add: one collect_map_Inr[of "\<lambda>i. \<lparr>num_qubits = n, op_terms = [((jw_z n i False, jw_x n i), 1 / 2), ((jw_z n i True, jw_x n i), \<i> / 2)]\<rparr>"] jw_op_def)
qed


section \<open>The shape of the Jordan-Wigner operators\<close>

text \<open>
  Claim C3. For \<open>n \<ge> 1\<close> orbitals and every index \<open>i < n\<close>, the function returns \<open>n\<close>
  operators (four for \<open>n = 4\<close>); the \<open>i\<close>-th one acts on \<open>n\<close> qubits and has exactly two
  rows: the first with coefficient \<open>0.5\<close>, Z-flags on the qubits below \<open>i\<close> and the X-flag on
  qubit \<open>i\<close> only, the second with coefficient \<open>0.5\<i>\<close> and the same flags plus the Z-flag
  on qubit \<open>i\<close>. Its adjoint has the same rows with coefficients \<open>0.5\<close> and \<open>-0.5\<i>\<close>.
\<close>

theorem jw_terms:
  assumes "i < n"
  shows "\<exists>ops. annihilation_operators_with_jordan_wigner n = Inr ops \<and> length ops = n
           \<and> num_qubits (ops ! i) = n
           \<and> op_terms (ops ! i)
               = [((map (\<lambda>k. k < i) [0..<n], map (\<lambda>k. k = i) [0..<n]), 1 / 2),
                  ((map (\<lambda>k. k < i \<or> k = i) [0..<n], map (\<lambda>k. k = i) [0..<n]), \<i> / 2)]
           \<and> op_terms (adjoint (ops ! i))
               = [((map (\<lambda>k. k < i) [0..<n], map (\<lambda>k. k = i) [0..<n]), 1 / 2),
                  ((map (\<lambda>k. k < i \<or> k = i) [0..<n], map (\<lambda>k. k = i) [0..<n]), - \<i> / 2)]"
  using assms by (simp add: jw_closed_form jw_op_def jw_z_def jw_x_def adjoint_def)

theorem jw_terms_witness:
  "\<exists>ops. annihilation_operators_with_jordan_wigner 4 = Inr ops \<and> length ops = 4
     \<and> num_qubits (ops ! 2) = 4
     \<and> op_terms (ops ! 2)
         = [(([True, True, False, False], [False, False, True, False]), 1 / 2),
            (([True, True, True, False], [False, False, True, False]), \<i> / 2)]
     \<and> op_terms (adjoint (ops ! 2))
         = [(([True, True, False, False], [False, False, True, False]), 1 / 2),
            (([True, True, True, False], [False, False, True, False]), - \<i> / 2)]"
  using jw_terms[of 2 4] by (simp add: upt_conv_Cons)


end
